theory Spec2Isabelle
  imports Main
begin

section \<open>Values shared by the entities and the HTTP layer\<close>

text \<open>
  JavaScript values as far as the code inspects them: the exception filter looks a
  property up in an object and tests it for truthiness, and the entities carry
  JSON-like defaults. Numbers are integers here: the code computes with none but reads
  a status code and a retry counter. \<open>JFunction\<close> is a function; a symbol behaves like
  one wherever this code meets it. Instants (\<open>Date\<close>) are milliseconds since the epoch.
\<close>

datatype jsval =
    JUndefined
  | JNull
  | JBool bool
  | JNum int
  | JStr string
  | JArr "jsval list"
  | JObj "(string \<times> jsval) list"
  | JFunction

type_synonym instant = int

section \<open>The fee transaction entity\<close>

datatype FeeStatus = PENDING | COLLECTED | FAILED | REFUNDED

datatype FeeTier = STANDARD | HIGH_VOLUME | VIP | PROMOTIONAL

text \<open>
  One field per property of the class \<open>FeeTransaction\<close>, in the order of the source.
  The decimal columns are strings in the class. A column declared \<open>nullable: true\<close> is an
  option: \<open>None\<close> is the SQL \<open>NULL\<close> a stored row may hold there.
\<close>

record FeeTransaction =
  id_FeeTransaction :: string
  userId :: string
  tradeAmount :: string
  feeAmount :: string
  feeRate :: string
  feeTier :: FeeTier
  status :: FeeStatus
  tradeId :: "string option"
  stellarTransactionHash :: "string option"
  assetCode :: string
  assetIssuer :: string
  platformWalletAddress :: "string option"
  failureReason :: "string option"
  retryCount :: int
  metadata :: "(string \<times> jsval) list option"
  createdAt :: instant
  updatedAt :: instant
  collectedAt :: "instant option"

text \<open>
  \<open>new FeeTransaction()\<close>: the class has no constructor of its own, so creating a record
  runs the property initialisers top to bottom. The three \<open>new Date()\<close> read the clock
  one after the other; the readings are the arguments, in that order.
\<close>

definition new_FeeTransaction :: "instant \<Rightarrow> instant \<Rightarrow> instant \<Rightarrow> FeeTransaction" where
  "new_FeeTransaction t_created t_updated t_collected =
     \<lparr> id_FeeTransaction = '''',
       userId = '''',
       tradeAmount = ''0'',
       feeAmount = ''0'',
       feeRate = ''0'',
       feeTier = STANDARD,
       status = PENDING,
       tradeId = Some '''',
       stellarTransactionHash = Some '''',
       assetCode = '''',
       assetIssuer = '''',
       platformWalletAddress = Some '''',
       failureReason = Some '''',
       retryCount = 0,
       metadata = Some [],
       createdAt = t_created,
       updatedAt = t_updated,
       collectedAt = Some t_collected \<rparr>"


section \<open>Column declarations\<close>

text \<open>
  The decorators of the entity classes, as data. \<open>column\<close> has one field per option the
  source passes to a decorator; an option the source leaves out has the value of
  \<open>Column_decl\<close> below (\<open>@Column()\<close> with no argument). \<open>ts_type\<close> is the type of the
  property in the class.
\<close>

datatype decorator_kind =
  PrimaryGeneratedColumn | Column | CreateDateColumn | UpdateDateColumn | OneToMany

datatype ts_type = TsString | TsNumber | TsDate | TsEnum | TsObject | TsArray

record column =
  prop_name :: string
  decorator :: decorator_kind
  ts_type :: ts_type
  column_type :: "string option"
  precision :: "nat option"
  scale :: "nat option"
  enum_values :: "string list"
  nullable :: bool
  unique :: bool
  default_value :: "jsval option"

definition Column_decl :: "string \<Rightarrow> ts_type \<Rightarrow> column" where
  "Column_decl n t =
     \<lparr> prop_name = n, decorator = Column, ts_type = t, column_type = None,
       precision = None, scale = None, enum_values = [], nullable = False,
       unique = False, default_value = None \<rparr>"

definition FeeStatus_values :: "string list" where
  "FeeStatus_values = [''PENDING'', ''COLLECTED'', ''FAILED'', ''REFUNDED'']"

definition FeeTier_values :: "string list" where
  "FeeTier_values = [''STANDARD'', ''HIGH_VOLUME'', ''VIP'', ''PROMOTIONAL'']"

text \<open>The columns the properties below are about, each as the source declares it.\<close>

definition tradeAmount_column :: column where
  "tradeAmount_column = (Column_decl ''tradeAmount'' TsString)
     \<lparr> column_type := Some ''decimal'', precision := Some 20, scale := Some 7 \<rparr>"

definition feeAmount_column :: column where
  "feeAmount_column = (Column_decl ''feeAmount'' TsString)
     \<lparr> column_type := Some ''decimal'', precision := Some 20, scale := Some 7 \<rparr>"

definition feeRate_column :: column where
  "feeRate_column = (Column_decl ''feeRate'' TsString)
     \<lparr> column_type := Some ''decimal'', precision := Some 5, scale := Some 4 \<rparr>"

definition status_column :: column where
  "status_column = (Column_decl ''status'' TsEnum)
     \<lparr> column_type := Some ''enum'', enum_values := FeeStatus_values,
       default_value := Some (JStr ''PENDING'') \<rparr>"

definition failureReason_column :: column where
  "failureReason_column = (Column_decl ''failureReason'' TsString)
     \<lparr> column_type := Some ''text'', nullable := True \<rparr>"

definition collectedAt_column :: column where
  "collectedAt_column = (Column_decl ''collectedAt'' TsDate)
     \<lparr> column_type := Some ''timestamp'', nullable := True \<rparr>"

definition username_column :: column where
  "username_column = (Column_decl ''username'' TsString) \<lparr> unique := True \<rparr>"

definition wallet_address_column :: column where
  "wallet_address_column = (Column_decl ''wallet_address'' TsString) \<lparr> unique := True \<rparr>"

definition reputation_score_column :: column where
  "reputation_score_column =
     (Column_decl ''reputation_score'' TsNumber) \<lparr> default_value := Some (JNum 0) \<rparr>"

definition FeeTransaction_columns :: "column list" where
  "FeeTransaction_columns =
     [ (Column_decl ''id'' TsString)
         \<lparr> decorator := PrimaryGeneratedColumn, column_type := Some ''uuid'' \<rparr>,
       Column_decl ''userId'' TsString,
       tradeAmount_column,
       feeAmount_column,
       feeRate_column,
       (Column_decl ''feeTier'' TsEnum)
         \<lparr> column_type := Some ''enum'', enum_values := FeeTier_values,
           default_value := Some (JStr ''STANDARD'') \<rparr>,
       status_column,
       (Column_decl ''tradeId'' TsString) \<lparr> nullable := True \<rparr>,
       (Column_decl ''stellarTransactionHash'' TsString) \<lparr> nullable := True \<rparr>,
       Column_decl ''assetCode'' TsString,
       Column_decl ''assetIssuer'' TsString,
       (Column_decl ''platformWalletAddress'' TsString) \<lparr> nullable := True \<rparr>,
       failureReason_column,
       (Column_decl ''retryCount'' TsNumber)
         \<lparr> column_type := Some ''int'', default_value := Some (JNum 0) \<rparr>,
       (Column_decl ''metadata'' TsObject)
         \<lparr> column_type := Some ''jsonb'', nullable := True \<rparr>,
       (Column_decl ''createdAt'' TsDate) \<lparr> decorator := CreateDateColumn \<rparr>,
       (Column_decl ''updatedAt'' TsDate) \<lparr> decorator := UpdateDateColumn \<rparr>,
       collectedAt_column ]"

definition User_columns :: "column list" where
  "User_columns =
     [ (Column_decl ''id'' TsString)
         \<lparr> decorator := PrimaryGeneratedColumn, column_type := Some ''uuid'' \<rparr>,
       username_column,
       wallet_address_column,
       (Column_decl ''bio'' TsString) \<lparr> nullable := True \<rparr>,
       reputation_score_column,
       (Column_decl ''signals'' TsArray) \<lparr> decorator := OneToMany \<rparr>,
       (Column_decl ''created_at'' TsDate) \<lparr> decorator := CreateDateColumn \<rparr>,
       (Column_decl ''updated_at'' TsDate) \<lparr> decorator := UpdateDateColumn \<rparr> ]"

definition column_of :: "column list \<Rightarrow> string \<Rightarrow> column option" where
  "column_of cols n = find (\<lambda>c. prop_name c = n) cols"

section \<open>What the database does with the declarations\<close>

text \<open>
  An entity handed to the persistence layer is an object: a list of property and value,
  each property once. Reading a property that is not there gives \<open>undefined\<close>, as in
  JavaScript.
\<close>

type_synonym object = "(string \<times> jsval) list"

definition property :: "object \<Rightarrow> string \<Rightarrow> jsval" where
  "property obj k = (case map_of obj k of None \<Rightarrow> JUndefined | Some v \<Rightarrow> v)"

text \<open>
  What a cell of a stored row holds: NULL; in a decimal column one of the database's
  numerics, which is \<open>NaN\<close> or a whole number \<open>u\<close> of units of \<open>10\<^sup>-\<^sup>s\<close>, written
  \<open>Dec u s\<close> (a decimal with exactly \<open>s\<close> fractional digits); in any other column the
  value as the driver gives it back.
\<close>

datatype numeric = NaN | Dec int nat

datatype cell = Null | Numeric numeric | Value jsval

type_synonym row = "(string \<times> cell) list"

definition cell_of :: "row \<Rightarrow> string \<Rightarrow> cell" where
  "cell_of r n = (case map_of r n of None \<Rightarrow> Null | Some x \<Rightarrow> x)"

text \<open>
  What the database reads from a numeric literal: \<open>NaN\<close>, an infinity, or the number
  \<open>m * 10\<^sup>e\<close>.
\<close>

datatype numeric_input = InNaN | InInfinity | InFinite int int

text \<open>
  The quotient \<open>n / d\<close>, for \<open>d > 0\<close>, rounded to a whole number with ties away from
  zero, which is how PostgreSQL rounds a numeric.
\<close>

definition round_half_away :: "int \<Rightarrow> int \<Rightarrow> int" where
  "round_half_away n d =
     (if 0 \<le> n then (2 * n + d) div (2 * d) else - ((2 * (- n) + d) div (2 * d)))"

text \<open>The number \<open>m * 10\<^sup>e\<close> in units of \<open>10\<^sup>-\<^sup>s\<close>, rounded when it has more digits.\<close>

definition rescale :: "int \<Rightarrow> int \<Rightarrow> nat \<Rightarrow> int" where
  "rescale m e s =
     (if 0 \<le> e + int s then m * 10 ^ nat (e + int s)
      else round_half_away m (10 ^ nat (- (e + int s))))"

text \<open>
  A column \<open>decimal\<close> with precision \<open>p\<close> and scale \<open>s\<close> (PostgreSQL's \<open>numeric(p, s)\<close>)
  stores \<open>NaN\<close> as it is and refuses an infinity; a number it first rounds to \<open>s\<close>
  fractional digits and then refuses if the result needs more than \<open>p\<close> digits
  (numeric field overflow).
\<close>

definition store_decimal :: "nat \<Rightarrow> nat \<Rightarrow> numeric_input \<Rightarrow> numeric option" where
  "store_decimal p s x =
     (case x of
        InNaN \<Rightarrow> Some NaN
      | InInfinity \<Rightarrow> None
      | InFinite m e \<Rightarrow>
          (let u = rescale m e s in if \<bar>u\<bar> < 10 ^ p then Some (Dec u s) else None))"

definition fixed_decimal :: "column \<Rightarrow> (nat \<times> nat) option" where
  "fixed_decimal c =
     (if column_type c = Some ''decimal''
      then (case (precision c, scale c) of (Some p, Some s) \<Rightarrow> Some (p, s) | _ \<Rightarrow> None)
      else None)"

text \<open>
  What the model takes from the database as given: the value it generates for a
  generated column; what it makes of a value supplied for a column (\<open>None\<close> when it
  refuses the value as of the wrong type or out of range, the converted value
  otherwise); and the numeric it reads from a value supplied for a decimal column
  (\<open>None\<close> when the text is no numeric literal).
\<close>

record database =
  generate :: "string \<Rightarrow> cell"
  coerce :: "column \<Rightarrow> jsval \<Rightarrow> cell option"
  read_numeric :: "jsval \<Rightarrow> numeric_input option"

text \<open>
  The cell a column gets when an entity is inserted; \<open>None\<close> when the database refuses
  the value. A property that is \<open>undefined\<close> is left out of the INSERT: a generated
  column (\<open>@PrimaryGeneratedColumn\<close>, \<open>@CreateDateColumn\<close>, \<open>@UpdateDateColumn\<close>) then
  gets what the database generates, any other column its declared \<open>default\<close>, or NULL
  when it declares none. A property that is \<open>null\<close> is stored as NULL. Any other value
  goes through the column's type: a \<open>decimal\<close> column with precision and scale reads it
  as a numeric and stores that as \<open>store_decimal\<close> says.
\<close>

definition stored_value :: "database \<Rightarrow> column \<Rightarrow> jsval \<Rightarrow> cell option" where
  "stored_value db c v =
     (if v = JUndefined then
        (if decorator c \<noteq> Column then Some (generate db (prop_name c))
         else (case default_value c of None \<Rightarrow> Some Null | Some d \<Rightarrow> Some (Value d)))
      else if v = JNull then Some Null
      else (case fixed_decimal c of
              None \<Rightarrow> coerce db c v
            | Some (p, s) \<Rightarrow>
                (case read_numeric db v of
                   None \<Rightarrow> None
                 | Some x \<Rightarrow> map_option Numeric (store_decimal p s x))))"

text \<open>
  The row of an entity, column by column; a relation (\<open>@OneToMany\<close>) is no column of
  the table. No row when the database refuses one of the values.
\<close>

fun to_row :: "database \<Rightarrow> column list \<Rightarrow> object \<Rightarrow> row option" where
  "to_row db [] e = Some []"
| "to_row db (c # cs) e =
     (if decorator c = OneToMany then to_row db cs e
      else (case stored_value db c (property e (prop_name c)) of
              None \<Rightarrow> None
            | Some x \<Rightarrow>
                (case to_row db cs e of
                   None \<Rightarrow> None
                 | Some r \<Rightarrow> Some ((prop_name c, x) # r))))"

text \<open>
  A column declared \<open>unique: true\<close> carries a unique constraint: an insert whose value
  in that column, if not NULL, is already in the table is refused. A column not
  declared \<open>nullable: true\<close> is NOT NULL: an insert that would store NULL there is
  refused. A refused insert leaves the table as it was.
\<close>

definition unique_violation :: "column list \<Rightarrow> row list \<Rightarrow> row \<Rightarrow> bool" where
  "unique_violation cols table r =
     list_ex (\<lambda>c. unique c \<and> cell_of r (prop_name c) \<noteq> Null \<and>
        list_ex (\<lambda>r'. cell_of r' (prop_name c) = cell_of r (prop_name c)) table) cols"

definition null_violation :: "column list \<Rightarrow> row \<Rightarrow> bool" where
  "null_violation cols r =
     list_ex (\<lambda>c. decorator c = Column \<and> \<not> nullable c \<and> cell_of r (prop_name c) = Null)
       cols"

definition insert_row :: "database \<Rightarrow> column list \<Rightarrow> row list \<Rightarrow> object \<Rightarrow> row list option" where
  "insert_row db cols table e =
     (case to_row db cols e of
        None \<Rightarrow> None
      | Some r \<Rightarrow>
          (if null_violation cols r \<or> unique_violation cols table r then None
           else Some (table @ [r])))"

text \<open>The tables that inserts build; a refused insert changes nothing.\<close>

fun insert_all :: "database \<Rightarrow> column list \<Rightarrow> row list \<Rightarrow> object list \<Rightarrow> row list" where
  "insert_all db cols table [] = table"
| "insert_all db cols table (e # es) =
     (case insert_row db cols table e of
        None \<Rightarrow> insert_all db cols table es
      | Some table' \<Rightarrow> insert_all db cols table' es)"

text \<open>
  A reader of the plain numeric literals, for the examples: an optional sign, digits,
  and optionally a point with digits, or \<open>NaN\<close>. The database reads these so, and more
  besides (exponents, infinities, surrounding blanks); the properties below hold for
  every reader.
\<close>

definition digit_value :: "char \<Rightarrow> int option" where
  "digit_value c =
     (let n = (of_char c :: int) in if 48 \<le> n \<and> n \<le> 57 then Some (n - 48) else None)"

fun digits_value :: "string \<Rightarrow> int \<Rightarrow> int option" where
  "digits_value [] acc = Some acc"
| "digits_value (c # cs) acc =
     (case digit_value c of None \<Rightarrow> None | Some d \<Rightarrow> digits_value cs (10 * acc + d))"

definition plain_literal :: "string \<Rightarrow> numeric_input option" where
  "plain_literal s =
     (if s = ''NaN'' then Some InNaN
      else
        (let negative = (s \<noteq> [] \<and> hd s = CHR ''-'');
             signed = (s \<noteq> [] \<and> (hd s = CHR ''-'' \<or> hd s = CHR ''+''));
             body = (if signed then tl s else s);
             whole = takeWhile (\<lambda>c. c \<noteq> CHR ''.'') body;
             fraction = drop 1 (dropWhile (\<lambda>c. c \<noteq> CHR ''.'') body)
         in if whole @ fraction = [] then None
            else (case digits_value (whole @ fraction) 0 of
                    None \<Rightarrow> None
                  | Some n \<Rightarrow>
                      Some (InFinite (if negative then - n else n)
                              (- int (length fraction))))))"

definition plain_reader :: "jsval \<Rightarrow> numeric_input option" where
  "plain_reader v =
     (case v of JStr s \<Rightarrow> plain_literal s | JNum n \<Rightarrow> Some (InFinite n 0) | _ \<Rightarrow> None)"

text \<open>
  A database for the examples: it generates the text \<open>generated\<close>, keeps every value
  it is given as it is, and reads the plain literals.
\<close>

definition plain_database :: database where
  "plain_database =
     \<lparr> generate = (\<lambda>n. Value (JStr ''generated'')),
       coerce = (\<lambda>c v. Some (Value v)),
       read_numeric = plain_reader \<rparr>"

section \<open>The global exception filter\<close>


record request =
  http_method :: string
  url :: string













section \<open>The logging interceptor\<close>

text \<open>
  An observable is the list of notifications it delivers. Each comes with what the
  \<open>tap\<close> callback would read at that moment: \<open>Date.now()\<close> and \<open>response.statusCode\<close>.
\<close>

datatype 'a notification = Next 'a | ErrorNote jsval | Complete

record moment =
  now :: instant
  statusCode :: int

type_synonym 'a observable = "(moment \<times> 'a notification) list"

text \<open>
  The operator \<open>tap(f)\<close> with a single callback: for each \<open>next\<close> it runs \<open>f\<close> for its
  effect (here on the log \<open>s\<close>) and then passes the notification on as it came; an
  error or a completion passes without a call.
\<close>

fun tap :: "(moment \<Rightarrow> 's \<Rightarrow> 's) \<Rightarrow> 'a observable \<Rightarrow> 's \<Rightarrow> 'a observable \<times> 's" where
  "tap f [] s = ([], s)"
| "tap f ((m, Next v) # rest) s =
     (case tap f rest (f m s) of (out, s') \<Rightarrow> ((m, Next v) # out, s'))"
| "tap f ((m, n) # rest) s =
     (case tap f rest s of (out, s') \<Rightarrow> ((m, n) # out, s'))"

text \<open>
  One debug line, \<open>[method] url - statusCode - duration ms\<close>, kept as its four parts.
\<close>

record log_line =
  log_method :: string
  log_url :: string
  log_statusCode :: int
  log_duration :: int

definition intercept ::
  "request \<Rightarrow> instant \<Rightarrow> 'a observable \<Rightarrow> log_line list \<Rightarrow> 'a observable \<times> log_line list" where
  "intercept req startTime handle log =
     tap (\<lambda>m lg. lg @ [\<lparr> log_method = http_method req, log_url = url req,
                          log_statusCode = statusCode m,
                          log_duration = now m - startTime \<rparr>])
         handle log"

section \<open>The fee core that the specification describes\<close>

text \<open>
  Modelled from the spec: the Money type (sections 3 and 4.1), which is not in src/. A
  Money is a fixed-point amount with 7 fractional digits, held here as its whole
  number of units of \<open>10\<^sup>-\<^sup>7\<close>.
\<close>

type_synonym Money = int

text \<open>
  Modelled from the spec: the Ratio type of a fee rate (section 3: a decimal ratio
  with 4 fractional digits), which is not in src/; held here as its whole number of
  units of \<open>10\<^sup>-\<^sup>4\<close>.
\<close>

type_synonym Ratio = int

text \<open>
  Modelled from the spec: the number of fractional digits of a Ratio (section 3),
  which is not in src/.
\<close>

definition rate_scale :: nat where
  "rate_scale = 4"

text \<open>
  Modelled from the spec: banker's rounding of the quotient \<open>n / d\<close> for \<open>d > 0\<close>
  (section 4.1), which is not in src/. \<open>div\<close> rounds down and \<open>mod\<close> is never negative,
  so the remainder decides: below half goes down, above half goes up, exactly half
  goes to the even neighbour.
\<close>

definition round_half_even :: "int \<Rightarrow> int \<Rightarrow> int" where
  "round_half_even n d =
     (let q = n div d; r = n mod d
      in if 2 * r < d then q
         else if 2 * r > d then q + 1
         else if even q then q else q + 1)"

text \<open>
  Modelled from the spec: \<open>Money.multiplyByRate\<close> (section 4.1), which is not in src/.
  The product of a Money and a Ratio counts units of \<open>10\<^sup>-\<^sup>1\<^sup>1\<close>; the result is that
  product brought back to units of \<open>10\<^sup>-\<^sup>7\<close>, rounded half to even.
\<close>

definition multiplyByRate :: "Money \<Rightarrow> Ratio \<Rightarrow> Money" where
  "multiplyByRate m rate = round_half_even (m * rate) (10 ^ rate_scale)"

text \<open>
  Modelled from the spec: the fee of a trade (section 3, \<open>feeAmount = tradeAmount *
  feeRate\<close> at creation time; section 8, rounded half to even to the declared scale),
  whose computation is not in src/.
\<close>

definition computeFeeAmount :: "Money \<Rightarrow> Ratio \<Rightarrow> Money" where
  "computeFeeAmount trade_amount fee_rate = multiplyByRate trade_amount fee_rate"

text \<open>
  Modelled from the spec: its words for the rounding (sections 4.1 and 8), as a
  relation to compare \<open>round_half_even\<close> with. \<open>q\<close> is \<open>n / d\<close> rounded half to even when
  \<open>q\<close> is at most half a unit away from \<open>n / d\<close> and, where it is exactly half a unit
  away, \<open>q\<close> is even.
\<close>

definition rounds_half_even :: "int \<Rightarrow> int \<Rightarrow> int \<Rightarrow> bool" where
  "rounds_half_even n d q =
     (2 * \<bar>q * d - n\<bar> \<le> d \<and> (2 * \<bar>q * d - n\<bar> = d \<longrightarrow> even q))"

text \<open>
  Modelled from the spec: the error taxonomy of section 7, which is not in src/.
\<close>

datatype core_error =
    InvalidAmount
  | Overflow
  | UnknownPromotionCode
  | InvalidStateTransition
  | ConcurrentModification
  | LedgerSubmissionFailed bool
  | RetryExhausted
  | NotFound

text \<open>
  Modelled from the spec: the state of the persistence collaborator of section 6
  (FeeTransaction records by id), which is not in src/.
\<close>

type_synonym store = "string \<rightharpoonup> FeeTransaction"

text \<open>
  Modelled from the spec: \<open>requestRefund\<close> (sections 4.3 and 6), which is not in src/.
  On a COLLECTED transaction the refund moves the status to REFUNDED and persists the
  record; that update is when the \<open>@UpdateDateColumn\<close> property of the entity takes the
  time of the call. On a REFUNDED transaction it is a no-op that returns the record as
  it is. Any other transition request fails with \<open>InvalidStateTransition\<close>, and an
  unknown id with \<open>NotFound\<close>.
\<close>

definition requestRefund ::
  "instant \<Rightarrow> store \<Rightarrow> string \<Rightarrow> core_error + (FeeTransaction \<times> store)" where
  "requestRefund time st ident =
     (case st ident of
        None \<Rightarrow> Inl NotFound
      | Some t \<Rightarrow>
          (case status t of
             COLLECTED \<Rightarrow>
               (let t' = t \<lparr> status := REFUNDED, updatedAt := time \<rparr>
                in Inr (t', st(ident \<mapsto> t')))
           | REFUNDED \<Rightarrow> Inr (t, st)
           | PENDING \<Rightarrow> Inl InvalidStateTransition
           | FAILED \<Rightarrow> Inl InvalidStateTransition))"

section \<open>What a record carries\<close>


text \<open>
  Entities for the examples: a fee transaction with the columns that must not be NULL
  filled in (tier, status and retry count are left to their defaults), and a user.
\<close>

definition example_fee :: "string \<Rightarrow> string \<Rightarrow> string \<Rightarrow> object" where
  "example_fee trade_amount fee_amount fee_rate =
     [(''userId'', JStr ''user-1''),
      (''tradeAmount'', JStr trade_amount),
      (''feeAmount'', JStr fee_amount),
      (''feeRate'', JStr fee_rate),
      (''assetCode'', JStr ''XLM''),
      (''assetIssuer'', JStr ''native'')]"

definition example_user :: "string \<Rightarrow> string \<Rightarrow> object" where
  "example_user name wallet = [(''username'', JStr name), (''wallet_address'', JStr wallet)]"

section \<open>Properties of the fee transaction entity\<close>

lemma column_of_status_and_optionals:
  "column_of FeeTransaction_columns ''status'' = Some status_column"
  "column_of FeeTransaction_columns ''failureReason'' = Some failureReason_column"
  "column_of FeeTransaction_columns ''collectedAt'' = Some collectedAt_column"
  by (simp_all add: column_of_def FeeTransaction_columns_def Column_decl_def
      tradeAmount_column_def feeAmount_column_def feeRate_column_def status_column_def
      failureReason_column_def collectedAt_column_def)

text \<open>
  C7. \<open>FeeStatus\<close> has the four values PENDING, COLLECTED, FAILED and REFUNDED, all
  different, and no other, and the \<open>status\<close> column is an enum over these four; PENDING
  is the status of every newly created record and the default of the column.
\<close>

theorem C7_FeeStatus_values_and_initial:
  "(UNIV :: FeeStatus set) = {PENDING, COLLECTED, FAILED, REFUNDED}
   \<and> distinct [PENDING, COLLECTED, FAILED, REFUNDED]
   \<and> enum_values status_column = [''PENDING'', ''COLLECTED'', ''FAILED'', ''REFUNDED'']
   \<and> status (new_FeeTransaction t1 t2 t3) = PENDING
   \<and> column_of FeeTransaction_columns ''status'' = Some status_column
   \<and> default_value status_column = Some (JStr ''PENDING'')"
proof -
  have "x \<in> {PENDING, COLLECTED, FAILED, REFUNDED}" for x :: FeeStatus
    by (cases x) simp_all
  then have "(UNIV :: FeeStatus set) = {PENDING, COLLECTED, FAILED, REFUNDED}"
    by blast
  then show ?thesis
    by (simp add: new_FeeTransaction_def column_of_status_and_optionals status_column_def
        FeeStatus_values_def)
qed

text \<open>
  C1, evaluated on the code. The claim wants a freshly created record, whose status is
  PENDING, to have no \<open>collectedAt\<close>, and the column is declared nullable for that. But
  the initialiser of \<open>collectedAt\<close> is \<open>new Date()\<close>: the new record is PENDING and
  carries the instant of its own construction as its collection time.
\<close>

theorem C1_fresh_record_has_collectedAt:
  "column_of FeeTransaction_columns ''collectedAt'' = Some collectedAt_column
   \<and> nullable collectedAt_column
   \<and> status (new_FeeTransaction 1000 1000 1001) = PENDING
   \<and> status (new_FeeTransaction 1000 1000 1001) \<noteq> COLLECTED
   \<and> collectedAt (new_FeeTransaction 1000 1000 1001) = Some 1001"
  by (simp add: new_FeeTransaction_def column_of_status_and_optionals collectedAt_column_def)


section \<open>Properties of the stored rows\<close>

lemma column_of_FeeTransaction:
  "column_of FeeTransaction_columns ''tradeAmount'' = Some tradeAmount_column"
  "column_of FeeTransaction_columns ''feeAmount'' = Some feeAmount_column"
  "column_of FeeTransaction_columns ''feeRate'' = Some feeRate_column"
  by (simp_all add: column_of_def FeeTransaction_columns_def Column_decl_def
      tradeAmount_column_def feeAmount_column_def feeRate_column_def)

lemma column_of_User:
  "column_of User_columns ''username'' = Some username_column"
  "column_of User_columns ''wallet_address'' = Some wallet_address_column"
  "column_of User_columns ''reputation_score'' = Some reputation_score_column"
  by (simp_all add: column_of_def User_columns_def Column_decl_def
      username_column_def wallet_address_column_def reputation_score_column_def)

lemma distinct_names:
  "distinct (map prop_name FeeTransaction_columns)"
  "distinct (map prop_name User_columns)"
  by (simp_all add: FeeTransaction_columns_def User_columns_def Column_decl_def
      tradeAmount_column_def feeAmount_column_def feeRate_column_def status_column_def
      failureReason_column_def collectedAt_column_def username_column_def
      wallet_address_column_def reputation_score_column_def)

lemma to_row_cell:
  assumes "to_row db cols e = Some r" and "distinct (map prop_name cols)"
    and "c \<in> set cols" and "decorator c \<noteq> OneToMany"
  shows "stored_value db c (property e (prop_name c)) = Some (cell_of r (prop_name c))"
  using assms
proof (induction cols arbitrary: r)
  case Nil
  then show ?case by simp
next
  case (Cons a cs)
  show ?case
  proof (cases "c = a")
    case True
    with Cons.prems show ?thesis
      by (auto simp: cell_of_def split: option.splits)
  next
    case False
    with Cons.prems have c: "c \<in> set cs" and ne: "prop_name a \<noteq> prop_name c"
      by auto
    show ?thesis
    proof (cases "decorator a = OneToMany")
      case True
      with Cons.prems Cons.IH [of r] c show ?thesis
        by simp
    next
      case False
      with Cons.prems obtain x r' where
        r: "r = (prop_name a, x) # r'" and r': "to_row db cs e = Some r'"
        by (auto split: option.splits)
      from Cons.IH [OF r'] Cons.prems c
      have "stored_value db c (property e (prop_name c)) = Some (cell_of r' (prop_name c))"
        by simp
      with r ne show ?thesis
        by (simp add: cell_of_def)
    qed
  qed
qed

lemma insert_row_Some:
  assumes "insert_row db cols table e = Some table'"
  obtains r where "to_row db cols e = Some r" and "table' = table @ [r]"
    and "\<not> null_violation cols r" and "\<not> unique_violation cols table r"
  using assms by (auto simp: insert_row_def split: option.splits if_splits)

lemma insert_all_rows:
  assumes step: "\<And>e r. to_row db cols e = Some r \<Longrightarrow> \<not> null_violation cols r \<Longrightarrow> P r"
  shows "\<forall>r \<in> set table. P r \<Longrightarrow> \<forall>r \<in> set (insert_all db cols table es). P r"
proof (induction es arbitrary: table)
  case Nil
  then show ?case by simp
next
  case (Cons e es)
  show ?case
  proof (cases "insert_row db cols table e")
    case None
    with Cons show ?thesis by simp
  next
    case (Some table')
    then obtain r where "to_row db cols e = Some r" "table' = table @ [r]"
      "\<not> null_violation cols r"
      by (rule insert_row_Some)
    with step Cons.prems have "\<forall>r \<in> set table'. P r"
      by auto
    with Cons.IH Some show ?thesis by simp
  qed
qed

lemma not_null_cell:
  assumes "\<not> null_violation cols r" and "c \<in> set cols"
    and "decorator c = Column" and "\<not> nullable c"
  shows "cell_of r (prop_name c) \<noteq> Null"
  using assms by (auto simp: null_violation_def list_ex_iff)

lemma insert_row_keeps_distinct:
  assumes "c \<in> set cols" and "unique c" and "decorator c = Column" and "\<not> nullable c"
    and "distinct (map (\<lambda>r. cell_of r (prop_name c)) table)"
    and "insert_row db cols table e = Some table'"
  shows "distinct (map (\<lambda>r. cell_of r (prop_name c)) table')"
proof -
  from assms(6) obtain r where t': "table' = table @ [r]"
    and nn: "\<not> null_violation cols r" and nu: "\<not> unique_violation cols table r"
    by (rule insert_row_Some)
  from nn assms(1,3,4) have "cell_of r (prop_name c) \<noteq> Null"
    by (rule not_null_cell)
  with nu assms(1,2)
  have "\<not> list_ex (\<lambda>r'. cell_of r' (prop_name c) = cell_of r (prop_name c)) table"
    by (auto simp: unique_violation_def list_ex_iff)
  then have "cell_of r (prop_name c) \<notin> set (map (\<lambda>r. cell_of r (prop_name c)) table)"
    by (auto simp: list_ex_iff)
  with assms(5) t' show ?thesis
    by simp
qed

lemma insert_all_keeps_distinct:
  assumes "c \<in> set cols" and "unique c" and "decorator c = Column" and "\<not> nullable c"
  shows "distinct (map (\<lambda>r. cell_of r (prop_name c)) table)
         \<Longrightarrow> distinct (map (\<lambda>r. cell_of r (prop_name c)) (insert_all db cols table es))"
proof (induction es arbitrary: table)
  case Nil
  then show ?case by simp
next
  case (Cons e es)
  show ?case
  proof (cases "insert_row db cols table e")
    case None
    with Cons show ?thesis by simp
  next
    case (Some table')
    with Cons.prems have "distinct (map (\<lambda>r. cell_of r (prop_name c)) table')"
      using insert_row_keeps_distinct [OF assms] by blast
    with Some Cons.IH show ?thesis by simp
  qed
qed

text \<open>
  What a decimal column with precision \<open>p\<close> and scale \<open>s\<close> that does not take NULL and
  declares no default holds in a stored row: \<open>NaN\<close>, or a decimal with exactly \<open>s\<close>
  fractional digits and at most \<open>p\<close> digits in all.
\<close>

lemma decimal_cell:
  assumes row: "to_row db cols e = Some r" and nn: "\<not> null_violation cols r"
    and names: "distinct (map prop_name cols)" and c: "c \<in> set cols"
    and col: "decorator c = Column" "\<not> nullable c" "default_value c = None"
    and dec: "fixed_decimal c = Some (p, s)"
  shows "cell_of r (prop_name c) = Numeric NaN
       \<or> (\<exists>u. cell_of r (prop_name c) = Numeric (Dec u s) \<and> \<bar>u\<bar> < 10 ^ p)"
proof -
  let ?x = "cell_of r (prop_name c)"
  from col(1) have "decorator c \<noteq> OneToMany" by simp
  from to_row_cell [OF row names c this]
  have sv: "stored_value db c (property e (prop_name c)) = Some ?x" .
  from nn c col(1,2) have "?x \<noteq> Null"
    by (rule not_null_cell)
  with sv col dec obtain x n where "store_decimal p s x = Some n" and "Numeric n = ?x"
    by (auto simp: stored_value_def split: if_splits option.splits)
  then show ?thesis
    by (cases x) (auto simp: store_decimal_def Let_def split: if_splits)
qed

lemma decimal_columns:
  "tradeAmount_column \<in> set FeeTransaction_columns"
  "feeAmount_column \<in> set FeeTransaction_columns"
  "feeRate_column \<in> set FeeTransaction_columns"
  "fixed_decimal tradeAmount_column = Some (20, 7)"
  "fixed_decimal feeAmount_column = Some (20, 7)"
  "fixed_decimal feeRate_column = Some (5, 4)"
  by (simp_all add: FeeTransaction_columns_def fixed_decimal_def tradeAmount_column_def
      feeAmount_column_def feeRate_column_def Column_decl_def)

lemma example_fee_rows:
  "map (\<lambda>r. (cell_of r ''tradeAmount'', cell_of r ''feeAmount'', cell_of r ''feeRate''))
     (insert_all plain_database FeeTransaction_columns []
        [example_fee ''1000'' ''1'' ''1'',
         example_fee ''NaN'' ''0.00000025'' ''NaN'',
         example_fee ''1'' ''1'' ''10'',
         example_fee ''1'' ''1'' ''rate''])
   = [(Numeric (Dec 10000000000 7), Numeric (Dec 10000000 7), Numeric (Dec 10000 4)),
      (Numeric NaN, Numeric (Dec 3 7), Numeric NaN)]"
  by code_simp

text \<open>
  C5 as stated fails. The claim gives the fee rate four digits of precision and makes
  every fee rate a decimal. The column is declared with precision 5 and scale 4: the
  rate 1, stored as 1.0000, has five digits; and a decimal column also stores \<open>NaN\<close>,
  which is no decimal.
\<close>

theorem C5_feeRate_precision_counterexample:
  "precision feeRate_column = Some 5
   \<and> map (\<lambda>r. cell_of r ''feeRate'')
        (insert_all plain_database FeeTransaction_columns []
           [example_fee ''1000'' ''1'' ''1'', example_fee ''1000'' ''1'' ''NaN''])
      = [Numeric (Dec 10000 4), Numeric NaN]
   \<and> \<not> \<bar>10000 :: int\<bar> < 10 ^ 4"
  by code_simp

text \<open>
  C5, amended. The fee rate of every stored fee transaction is a decimal with exactly
  four fractional digits and at most five digits in all, as the \<open>feeRate\<close> column
  declares (decimal, precision 5, scale 4), or it is \<open>NaN\<close>; the class holds it as a
  string. This holds for every table that inserts build, whatever the entities
  inserted and whatever the database generates, converts and reads.
\<close>

theorem C5_feeRate_stored_with_scale_4:
  "column_of FeeTransaction_columns ''feeRate'' = Some feeRate_column
   \<and> column_type feeRate_column = Some ''decimal''
   \<and> precision feeRate_column = Some 5
   \<and> scale feeRate_column = Some 4
   \<and> ts_type feeRate_column = TsString
   \<and> (\<forall>r \<in> set (insert_all db FeeTransaction_columns [] es).
         cell_of r ''feeRate'' = Numeric NaN
       \<or> (\<exists>u. cell_of r ''feeRate'' = Numeric (Dec u 4) \<and> \<bar>u\<bar> < 10 ^ 5))"
proof -
  have decl: "column_type feeRate_column = Some ''decimal''"
    "precision feeRate_column = Some 5" "scale feeRate_column = Some 4"
    "ts_type feeRate_column = TsString"
    by (simp_all add: feeRate_column_def Column_decl_def)
  have "cell_of r (prop_name feeRate_column) = Numeric NaN
      \<or> (\<exists>u. cell_of r (prop_name feeRate_column) = Numeric (Dec u 4) \<and> \<bar>u\<bar> < 10 ^ 5)"
    if "to_row db FeeTransaction_columns e = Some r"
      and "\<not> null_violation FeeTransaction_columns r" for e r
    using that distinct_names(1) decimal_columns(3)
    by (rule decimal_cell)
      (simp_all add: fixed_decimal_def feeRate_column_def Column_decl_def)
  then have "\<forall>r \<in> set (insert_all db FeeTransaction_columns [] es).
      cell_of r (prop_name feeRate_column) = Numeric NaN
      \<or> (\<exists>u. cell_of r (prop_name feeRate_column) = Numeric (Dec u 4) \<and> \<bar>u\<bar> < 10 ^ 5)"
    by (intro insert_all_rows) simp_all
  then have rows: "\<forall>r \<in> set (insert_all db FeeTransaction_columns [] es).
      cell_of r ''feeRate'' = Numeric NaN
      \<or> (\<exists>u. cell_of r ''feeRate'' = Numeric (Dec u 4) \<and> \<bar>u\<bar> < 10 ^ 5)"
    by (simp add: feeRate_column_def Column_decl_def)
  from decl rows column_of_FeeTransaction(3) show ?thesis
    by blast
qed

theorem C5_feeRate_stored_with_scale_4_witness:
  "map (\<lambda>r. cell_of r ''feeRate'')
     (insert_all plain_database FeeTransaction_columns []
        [example_fee ''1000'' ''1'' ''0.00105'']) = [Numeric (Dec 11 4)]
   \<and> \<bar>11 :: int\<bar> < 10 ^ 5
   \<and> list_all (\<lambda>r. cell_of r ''feeRate'' = Numeric NaN
          \<or> (\<exists>u. cell_of r ''feeRate'' = Numeric (Dec u 4) \<and> \<bar>u\<bar> < 10 ^ 5))
        (insert_all plain_database FeeTransaction_columns []
           [example_fee ''1000'' ''1'' ''0.00105''])"
proof -
  have rows: "map (\<lambda>r. cell_of r ''feeRate'')
     (insert_all plain_database FeeTransaction_columns []
        [example_fee ''1000'' ''1'' ''0.00105'']) = [Numeric (Dec 11 4)]"
    by code_simp
  have small: "\<bar>11 :: int\<bar> < 10 ^ 5"
    by simp
  from C5_feeRate_stored_with_scale_4
    [of plain_database "[example_fee ''1000'' ''1'' ''0.00105'']"]
  have "\<forall>r \<in> set (insert_all plain_database FeeTransaction_columns []
           [example_fee ''1000'' ''1'' ''0.00105'']).
          cell_of r ''feeRate'' = Numeric NaN
          \<or> (\<exists>u. cell_of r ''feeRate'' = Numeric (Dec u 4) \<and> \<bar>u\<bar> < 10 ^ 5)"
    by (elim conjE)
  then have all: "list_all (\<lambda>r. cell_of r ''feeRate'' = Numeric NaN
          \<or> (\<exists>u. cell_of r ''feeRate'' = Numeric (Dec u 4) \<and> \<bar>u\<bar> < 10 ^ 5))
        (insert_all plain_database FeeTransaction_columns []
           [example_fee ''1000'' ''1'' ''0.00105''])"
    unfolding list_all_iff .
  show ?thesis
    by (intro conjI) (rule rows small all)+
qed

text \<open>
  C6 as stated fails. The claim makes every trade amount and fee amount a fixed-point
  decimal with exactly 7 fractional digits. The decimal columns also store \<open>NaN\<close>,
  which is no decimal; and the class holds the amounts as unconstrained strings: a
  record can hold 0.00000025, which has eight fractional digits and is stored as
  0.0000003.
\<close>

theorem C6_money_not_always_fixed_point_counterexample:
  "map (\<lambda>r. (cell_of r ''tradeAmount'', cell_of r ''feeAmount''))
     (insert_all plain_database FeeTransaction_columns []
        [example_fee ''NaN'' ''NaN'' ''0''])
     = [(Numeric NaN, Numeric NaN)]
   \<and> tradeAmount ((new_FeeTransaction 0 0 0) \<lparr> tradeAmount := ''0.00000025'' \<rparr>)
     = ''0.00000025''
   \<and> plain_literal ''0.00000025'' = Some (InFinite 25 (- 8))
   \<and> map (\<lambda>r. cell_of r ''tradeAmount'')
        (insert_all plain_database FeeTransaction_columns []
           [example_fee ''0.00000025'' ''0'' ''0''])
     = [Numeric (Dec 3 7)]
   \<and> (25 :: int) \<noteq> 3 * 10"
proof -
  have stored: "map (\<lambda>r. (cell_of r ''tradeAmount'', cell_of r ''feeAmount''))
     (insert_all plain_database FeeTransaction_columns []
        [example_fee ''NaN'' ''NaN'' ''0''])
     = [(Numeric NaN, Numeric NaN)]"
    by code_simp
  have held: "tradeAmount ((new_FeeTransaction 0 0 0) \<lparr> tradeAmount := ''0.00000025'' \<rparr>)
     = ''0.00000025''"
    by simp
  have read: "plain_literal ''0.00000025'' = Some (InFinite 25 (- 8))"
    by code_simp
  have rounded: "map (\<lambda>r. cell_of r ''tradeAmount'')
        (insert_all plain_database FeeTransaction_columns []
           [example_fee ''0.00000025'' ''0'' ''0''])
     = [Numeric (Dec 3 7)]"
    by code_simp
  have differ: "(25 :: int) \<noteq> 3 * 10"
    by simp
  show ?thesis
    by (intro conjI) (rule stored held read rounded differ)+
qed

text \<open>
  C6, amended. The trade amount and the fee amount of every stored fee transaction
  are fixed-point decimals with exactly 7 fractional digits and at most 20 digits in
  all, as both columns declare (decimal, precision 20, scale 7), or \<open>NaN\<close>; neither is
  held as binary floating point: the columns are decimal and the class holds both as
  strings, not as \<open>number\<close>. This holds for every table that inserts build, whatever
  the entities inserted and whatever the database generates, converts and reads.
\<close>

theorem C6_money_stored_fixed_point:
  "column_of FeeTransaction_columns ''tradeAmount'' = Some tradeAmount_column
   \<and> column_of FeeTransaction_columns ''feeAmount'' = Some feeAmount_column
   \<and> column_type tradeAmount_column = Some ''decimal''
   \<and> column_type feeAmount_column = Some ''decimal''
   \<and> precision tradeAmount_column = Some 20 \<and> precision feeAmount_column = Some 20
   \<and> scale tradeAmount_column = Some 7 \<and> scale feeAmount_column = Some 7
   \<and> ts_type tradeAmount_column = TsString \<and> ts_type feeAmount_column = TsString
   \<and> ts_type tradeAmount_column \<noteq> TsNumber \<and> ts_type feeAmount_column \<noteq> TsNumber
   \<and> (\<forall>r \<in> set (insert_all db FeeTransaction_columns [] es).
         (cell_of r ''tradeAmount'' = Numeric NaN
          \<or> (\<exists>u. cell_of r ''tradeAmount'' = Numeric (Dec u 7) \<and> \<bar>u\<bar> < 10 ^ 20))
       \<and> (cell_of r ''feeAmount'' = Numeric NaN
          \<or> (\<exists>u. cell_of r ''feeAmount'' = Numeric (Dec u 7) \<and> \<bar>u\<bar> < 10 ^ 20)))"
proof -
  have decl: "column_type tradeAmount_column = Some ''decimal''"
    "column_type feeAmount_column = Some ''decimal''"
    "precision tradeAmount_column = Some 20" "precision feeAmount_column = Some 20"
    "scale tradeAmount_column = Some 7" "scale feeAmount_column = Some 7"
    "ts_type tradeAmount_column = TsString" "ts_type feeAmount_column = TsString"
    by (simp_all add: tradeAmount_column_def feeAmount_column_def Column_decl_def)
  have ta: "cell_of r (prop_name tradeAmount_column) = Numeric NaN
      \<or> (\<exists>u. cell_of r (prop_name tradeAmount_column) = Numeric (Dec u 7)
            \<and> \<bar>u\<bar> < 10 ^ 20)"
    if "to_row db FeeTransaction_columns e = Some r"
      and "\<not> null_violation FeeTransaction_columns r" for e r
    using that distinct_names(1) decimal_columns(1)
    by (rule decimal_cell)
      (simp_all add: fixed_decimal_def tradeAmount_column_def Column_decl_def)
  have fa: "cell_of r (prop_name feeAmount_column) = Numeric NaN
      \<or> (\<exists>u. cell_of r (prop_name feeAmount_column) = Numeric (Dec u 7)
            \<and> \<bar>u\<bar> < 10 ^ 20)"
    if "to_row db FeeTransaction_columns e = Some r"
      and "\<not> null_violation FeeTransaction_columns r" for e r
    using that distinct_names(1) decimal_columns(2)
    by (rule decimal_cell)
      (simp_all add: fixed_decimal_def feeAmount_column_def Column_decl_def)
  have "\<forall>r \<in> set (insert_all db FeeTransaction_columns [] es).
      (cell_of r (prop_name tradeAmount_column) = Numeric NaN
       \<or> (\<exists>u. cell_of r (prop_name tradeAmount_column) = Numeric (Dec u 7)
             \<and> \<bar>u\<bar> < 10 ^ 20))
      \<and> (cell_of r (prop_name feeAmount_column) = Numeric NaN
       \<or> (\<exists>u. cell_of r (prop_name feeAmount_column) = Numeric (Dec u 7)
             \<and> \<bar>u\<bar> < 10 ^ 20))"
    using ta fa by (intro insert_all_rows) simp_all
  then have rows: "\<forall>r \<in> set (insert_all db FeeTransaction_columns [] es).
         (cell_of r ''tradeAmount'' = Numeric NaN
          \<or> (\<exists>u. cell_of r ''tradeAmount'' = Numeric (Dec u 7) \<and> \<bar>u\<bar> < 10 ^ 20))
       \<and> (cell_of r ''feeAmount'' = Numeric NaN
          \<or> (\<exists>u. cell_of r ''feeAmount'' = Numeric (Dec u 7) \<and> \<bar>u\<bar> < 10 ^ 20))"
    by (simp add: tradeAmount_column_def feeAmount_column_def Column_decl_def)
  have no_number: "ts_type tradeAmount_column \<noteq> TsNumber"
    "ts_type feeAmount_column \<noteq> TsNumber"
    by (simp_all add: decl)
  show ?thesis
    by (intro conjI) (rule decl no_number rows column_of_FeeTransaction)+
qed

theorem C6_money_stored_fixed_point_witness:
  "map (\<lambda>r. (cell_of r ''tradeAmount'', cell_of r ''feeAmount''))
     (insert_all plain_database FeeTransaction_columns []
        [example_fee ''1000'' ''1.00000005'' ''0.001''])
     = [(Numeric (Dec 10000000000 7), Numeric (Dec 10000001 7))]
   \<and> \<bar>10000000000 :: int\<bar> < 10 ^ 20 \<and> \<bar>10000001 :: int\<bar> < 10 ^ 20
   \<and> list_all (\<lambda>r.
          (cell_of r ''tradeAmount'' = Numeric NaN
           \<or> (\<exists>u. cell_of r ''tradeAmount'' = Numeric (Dec u 7) \<and> \<bar>u\<bar> < 10 ^ 20))
        \<and> (cell_of r ''feeAmount'' = Numeric NaN
           \<or> (\<exists>u. cell_of r ''feeAmount'' = Numeric (Dec u 7) \<and> \<bar>u\<bar> < 10 ^ 20)))
        (insert_all plain_database FeeTransaction_columns []
           [example_fee ''1000'' ''1.00000005'' ''0.001''])"
proof -
  have rows: "map (\<lambda>r. (cell_of r ''tradeAmount'', cell_of r ''feeAmount''))
     (insert_all plain_database FeeTransaction_columns []
        [example_fee ''1000'' ''1.00000005'' ''0.001''])
     = [(Numeric (Dec 10000000000 7), Numeric (Dec 10000001 7))]"
    by code_simp
  have small: "\<bar>10000000000 :: int\<bar> < 10 ^ 20" "\<bar>10000001 :: int\<bar> < 10 ^ 20"
    by simp_all
  from C6_money_stored_fixed_point
    [of plain_database "[example_fee ''1000'' ''1.00000005'' ''0.001'']"]
  have "\<forall>r \<in> set (insert_all plain_database FeeTransaction_columns []
           [example_fee ''1000'' ''1.00000005'' ''0.001'']).
          (cell_of r ''tradeAmount'' = Numeric NaN
           \<or> (\<exists>u. cell_of r ''tradeAmount'' = Numeric (Dec u 7) \<and> \<bar>u\<bar> < 10 ^ 20))
        \<and> (cell_of r ''feeAmount'' = Numeric NaN
           \<or> (\<exists>u. cell_of r ''feeAmount'' = Numeric (Dec u 7) \<and> \<bar>u\<bar> < 10 ^ 20))"
    by (elim conjE)
  then have all: "list_all (\<lambda>r.
          (cell_of r ''tradeAmount'' = Numeric NaN
           \<or> (\<exists>u. cell_of r ''tradeAmount'' = Numeric (Dec u 7) \<and> \<bar>u\<bar> < 10 ^ 20))
        \<and> (cell_of r ''feeAmount'' = Numeric NaN
           \<or> (\<exists>u. cell_of r ''feeAmount'' = Numeric (Dec u 7) \<and> \<bar>u\<bar> < 10 ^ 20)))
        (insert_all plain_database FeeTransaction_columns []
           [example_fee ''1000'' ''1.00000005'' ''0.001''])"
    unfolding list_all_iff .
  show ?thesis
    by (intro conjI) (rule rows small all)+
qed

section \<open>Properties of the User entity\<close>

lemma unique_columns_of_User:
  "username_column \<in> set User_columns" "unique username_column"
  "decorator username_column = Column" "\<not> nullable username_column"
  "wallet_address_column \<in> set User_columns" "unique wallet_address_column"
  "decorator wallet_address_column = Column" "\<not> nullable wallet_address_column"
  "reputation_score_column \<in> set User_columns"
  by (simp_all add: User_columns_def username_column_def wallet_address_column_def
      Column_decl_def)

lemma stored_default_score:
  assumes "property e ''reputation_score'' = JUndefined"
    and "insert_row db User_columns table e = Some table'"
  shows "cell_of (last table') ''reputation_score'' = Value (JNum 0)"
proof -
  from assms(2) obtain r where row: "to_row db User_columns e = Some r"
    and t': "table' = table @ [r]"
    by (rule insert_row_Some)
  have "decorator reputation_score_column \<noteq> OneToMany"
    by (simp add: reputation_score_column_def Column_decl_def)
  from to_row_cell [OF row distinct_names(2) unique_columns_of_User(9) this] assms(1)
  have "cell_of r ''reputation_score'' = Value (JNum 0)"
    by (simp add: stored_value_def reputation_score_column_def Column_decl_def)
  with t' show ?thesis
    by simp
qed

text \<open>
  Inserts in a row: the third repeats a username, the fourth a wallet address, the
  fifth has no username; the three are refused. The sixth names its own score.
\<close>

lemma insert_all_User_example:
  "map (\<lambda>r. (cell_of r ''username'', cell_of r ''wallet_address'',
              cell_of r ''reputation_score''))
     (insert_all plain_database User_columns []
        [example_user ''alice'' ''GA1'',
         example_user ''bob'' ''GB2'',
         example_user ''alice'' ''GC3'',
         example_user ''carol'' ''GB2'',
         [(''wallet_address'', JStr ''GD4'')],
         example_user ''dave'' ''GD4'' @ [(''reputation_score'', JNum 7)]])
   = [(Value (JStr ''alice''), Value (JStr ''GA1''), Value (JNum 0)),
      (Value (JStr ''bob''), Value (JStr ''GB2''), Value (JNum 0)),
      (Value (JStr ''dave''), Value (JStr ''GD4''), Value (JNum 7))]"
  by code_simp

text \<open>
  C10. In the User entity \<open>username\<close> and \<open>wallet_address\<close> are declared unique, so in
  any table built by inserts no two rows share a username and no two share a wallet
  address; and \<open>reputation_score\<close> is declared with default 0, so every User that is
  created without a score and stored has reputation score 0 in its row.
\<close>

theorem C10_User_unique_and_default:
  "column_of User_columns ''username'' = Some username_column
   \<and> unique username_column
   \<and> column_of User_columns ''wallet_address'' = Some wallet_address_column
   \<and> unique wallet_address_column
   \<and> column_of User_columns ''reputation_score'' = Some reputation_score_column
   \<and> default_value reputation_score_column = Some (JNum 0)
   \<and> distinct (map (\<lambda>r. cell_of r ''username'') (insert_all db User_columns [] es))
   \<and> distinct (map (\<lambda>r. cell_of r ''wallet_address'') (insert_all db User_columns [] es))
   \<and> (property e ''reputation_score'' = JUndefined
        \<longrightarrow> insert_row db User_columns table e = Some table'
        \<longrightarrow> cell_of (last table') ''reputation_score'' = Value (JNum 0))"
proof -
  have un: "distinct (map (\<lambda>r. cell_of r ''username'') (insert_all db User_columns [] es))"
    using insert_all_keeps_distinct [OF unique_columns_of_User(1-4), of "[]" db es]
    by (simp add: username_column_def Column_decl_def)
  have wa: "distinct (map (\<lambda>r. cell_of r ''wallet_address'')
              (insert_all db User_columns [] es))"
    using insert_all_keeps_distinct [OF unique_columns_of_User(5-8), of "[]" db es]
    by (simp add: wallet_address_column_def Column_decl_def)
  have rs: "default_value reputation_score_column = Some (JNum 0)"
    by (simp add: reputation_score_column_def)
  from un wa rs column_of_User unique_columns_of_User(2,6) stored_default_score
  show ?thesis
    by blast
qed

theorem C10_User_unique_and_default_witness:
  "property (example_user ''alice'' ''GA1'') ''reputation_score'' = JUndefined
   \<and> insert_row plain_database User_columns [] (example_user ''alice'' ''GA1'')
     = Some (insert_all plain_database User_columns [] [example_user ''alice'' ''GA1''])
   \<and> length (insert_all plain_database User_columns [] [example_user ''alice'' ''GA1'']) = 1
   \<and> cell_of (last (insert_all plain_database User_columns []
        [example_user ''alice'' ''GA1''])) ''reputation_score'' = Value (JNum 0)"
proof -
  have h1: "property (example_user ''alice'' ''GA1'') ''reputation_score'' = JUndefined"
    by code_simp
  have h2: "insert_row plain_database User_columns [] (example_user ''alice'' ''GA1'')
     = Some (insert_all plain_database User_columns [] [example_user ''alice'' ''GA1''])"
    by code_simp
  have len: "length (insert_all plain_database User_columns []
      [example_user ''alice'' ''GA1'']) = 1"
    by code_simp
  from C10_User_unique_and_default
    [of plain_database "[]" "example_user ''alice'' ''GA1''" "[]"
      "insert_all plain_database User_columns [] [example_user ''alice'' ''GA1'']"]
    h1 h2
  have "cell_of (last (insert_all plain_database User_columns []
        [example_user ''alice'' ''GA1''])) ''reputation_score'' = Value (JNum 0)"
    by blast
  with h1 h2 len show ?thesis
    by blast
qed

section \<open>Properties of the exception filter\<close>










section \<open>Properties of the logging interceptor\<close>

lemma tap_passes_all: "fst (tap f src s) = src"
  by (induction f src s rule: tap.induct) (auto split: prod.splits)

text \<open>
  C9. The interceptor is transparent: the observable it returns delivers exactly the
  notifications of the handler's observable, every emitted value unchanged and in the
  same order, whatever the request, the clock and the log.
\<close>

theorem C9_intercept_transparent:
  "fst (intercept req startTime handle log) = handle
   \<and> [v. (m, Next v) \<leftarrow> fst (intercept req startTime handle log)]
       = [v. (m, Next v) \<leftarrow> handle]"
  by (simp add: intercept_def tap_passes_all)

section \<open>Properties of the fee computation\<close>

lemma rhe_cases:
  assumes "0 < d"
  obtains (down) "2 * (n mod d) < d" "round_half_even n d = n div d"
        | (up) "2 * (n mod d) > d" "round_half_even n d = n div d + 1"
        | (tie_even) "2 * (n mod d) = d" "even (n div d)" "round_half_even n d = n div d"
        | (tie_odd) "2 * (n mod d) = d" "odd (n div d)" "round_half_even n d = n div d + 1"
  unfolding round_half_even_def Let_def by (cases "2 * (n mod d) < d"; cases "2 * (n mod d) > d"; cases "even (n div d)"; simp; linarith)

lemma rhe_error:
  assumes "0 < d"
  shows "round_half_even n d * d - n =
     (if round_half_even n d = n div d then - (n mod d) else d - n mod d)"
proof -
  have e: "k * d - n = (k - n div d) * d - n mod d" for k
  proof -
    have "(k - n div d) * d - n mod d = k * d - (n div d * d + n mod d)"
      by (simp only: left_diff_distrib diff_diff_eq)
    also have "n div d * d + n mod d = n"
      by simp
    finally show ?thesis by simp
  qed
  have "round_half_even n d = n div d \<or> round_half_even n d = n div d + 1"
    by (simp add: round_half_even_def Let_def)
  then show ?thesis
    using e [of "n div d"] e [of "n div d + 1"] by auto
qed

lemma rhe_near: assumes "0 < d" shows "2 * \<bar>round_half_even n d * d - n\<bar> \<le> d"
proof -
  have m: "0 \<le> n mod d" "n mod d < d" using assms by simp_all
  from assms show ?thesis
  proof (cases rule: rhe_cases [where n = n])
    case down then show ?thesis using m rhe_error [OF assms, of n] by simp
  next
    case up then show ?thesis using m rhe_error [OF assms, of n] by simp
  next
    case tie_even then show ?thesis using m rhe_error [OF assms, of n] by simp
  next
    case tie_odd then show ?thesis using m rhe_error [OF assms, of n] by simp
  qed
qed

lemma rhe_tie:
  assumes "0 < d" "2 * \<bar>round_half_even n d * d - n\<bar> = d"
  shows "even (round_half_even n d)"
proof -
  have m: "0 \<le> n mod d" "n mod d < d" using assms by simp_all
  from assms(1) show ?thesis
  proof (cases rule: rhe_cases [where n = n])
    case down then show ?thesis using m assms(2) rhe_error [OF assms(1), of n] by simp
  next
    case up then show ?thesis using m assms(2) rhe_error [OF assms(1), of n] by simp
  next
    case tie_even then show ?thesis by simp
  next
    case tie_odd then show ?thesis by simp
  qed
qed

lemma rhe_le: assumes "0 < d" "n \<le> k * d" shows "round_half_even n d \<le> k"
proof -
  have q: "n div d \<le> k" using assms
    using zdiv_mono1 [of n "k * d" d] by simp
  show ?thesis
  proof (cases "n div d = k")
    case True
    have "n = (n div d) * d + n mod d" by simp
    with True have "n = k * d + n mod d" by simp
    with assms(2) have "n mod d \<le> 0" by linarith
    moreover have "0 \<le> n mod d" using assms by simp
    ultimately have "n mod d = 0" by simp
    with True assms(1) show ?thesis by (simp add: round_half_even_def)
  next
    case False
    with q have "n div d + 1 \<le> k" by simp
    moreover have "round_half_even n d \<le> n div d + 1"
      by (simp add: round_half_even_def Let_def)
    ultimately show ?thesis by simp
  qed
qed

lemma rhe_unique:
  assumes d: "0 < d" and near: "2 * \<bar>q * d - n\<bar> \<le> d"
    and tie: "2 * \<bar>q * d - n\<bar> = d \<longrightarrow> even q"
  shows "q = round_half_even n d"
proof -
  define r where "r = round_half_even n d"
  define a where "a = q * d - n"
  define b where "b = r * d - n"
  have nb: "2 * \<bar>b\<bar> \<le> d" and tb: "2 * \<bar>b\<bar> = d \<Longrightarrow> even r"
    using rhe_near [OF d, of n] rhe_tie [OF d, of n] by (simp_all add: b_def r_def)
  have na: "2 * \<bar>a\<bar> \<le> d" and ta: "2 * \<bar>a\<bar> = d \<Longrightarrow> even q"
    using near tie by (simp_all add: a_def)
  have diff: "a - b = (q - r) * d"
    by (simp add: a_def b_def left_diff_distrib)
  consider "q = r" | "r + 1 \<le> q" | "q + 1 \<le> r" by linarith
  then have "q = r"
  proof cases
    case 1
    then show ?thesis .
  next
    case 2
    then have "1 * d \<le> (q - r) * d"
      using d by (intro mult_right_mono) simp_all
    with diff have ge: "d \<le> a - b" by simp
    with na nb have "2 * \<bar>a\<bar> = d" "2 * \<bar>b\<bar> = d" "a - b = d" by linarith+
    with ta tb diff d have "even q" "even r" "(q - r) * d = 1 * d" by simp_all
    then have "even q" "even r" "q - r = 1" using d by simp_all
    then show ?thesis by presburger
  next
    case 3
    then have "1 * d \<le> (r - q) * d"
      using d by (intro mult_right_mono) simp_all
    moreover have "b - a = (r - q) * d"
      by (simp add: a_def b_def left_diff_distrib)
    ultimately have ge: "d \<le> b - a" by simp
    with na nb have "2 * \<bar>a\<bar> = d" "2 * \<bar>b\<bar> = d" "b - a = d" by linarith+
    with ta tb \<open>b - a = (r - q) * d\<close> d have "even q" "even r" "(r - q) * d = 1 * d" by simp_all
    then have "even q" "even r" "r - q = 1" using d by simp_all
    then show ?thesis by presburger
  qed
  then show ?thesis by (simp add: r_def)
qed

lemma computeFeeAmount_examples:
  "computeFeeAmount 10000000000 10 = 10000000"
  "computeFeeAmount 5 1000 = 0"
  "computeFeeAmount 15 1000 = 2"
  "computeFeeAmount 25 1000 = 2"
  "computeFeeAmount 26 1000 = 3"
  by (simp_all add: computeFeeAmount_def multiplyByRate_def round_half_even_def rate_scale_def)

text \<open>
  C2 as stated fails. The claim bounds the fee by the trade amount for every amount
  and every rate. A rate above 1 is a rate like any other: 2.0000 fits the \<open>feeRate\<close>
  column (5 digits, 4 of them fractional), and on a trade of 1.0000000 it gives a fee
  of 2.0000000. And on a negative amount a rate below 1 gives a fee above the amount:
  half of -1.0000000 is -0.5000000.
\<close>

theorem C2_fee_exceeds_trade_counterexample:
  "store_decimal 20 7 (InFinite 1 0) = Some (Dec 10000000 7)
   \<and> store_decimal 5 4 (InFinite 2 0) = Some (Dec 20000 4)
   \<and> computeFeeAmount 10000000 20000 = 20000000
   \<and> \<not> computeFeeAmount 10000000 20000 \<le> 10000000
   \<and> computeFeeAmount (- 10000000) 5000 = - 5000000
   \<and> \<not> computeFeeAmount (- 10000000) 5000 \<le> - 10000000"
  by (simp add: computeFeeAmount_def multiplyByRate_def round_half_even_def rate_scale_def
      store_decimal_def rescale_def)

text \<open>
  C2, amended. For every trade amount and every fee rate, the fee is the product of
  amount and rate rounded half to even to 7 fractional digits (it is the only amount
  that is such a rounding); and whenever the trade amount is not negative and the fee
  rate is not above 1, the fee is at most the trade amount.
\<close>

theorem C2_fee_rounded_half_even_and_bounded:
  "rounds_half_even (trade_amount * fee_rate) (10 ^ rate_scale)
     (computeFeeAmount trade_amount fee_rate)
   \<and> (\<forall>q. rounds_half_even (trade_amount * fee_rate) (10 ^ rate_scale) q
          \<longrightarrow> q = computeFeeAmount trade_amount fee_rate)
   \<and> (0 \<le> trade_amount \<and> fee_rate \<le> 10 ^ rate_scale
        \<longrightarrow> computeFeeAmount trade_amount fee_rate \<le> trade_amount)"
proof -
  let ?d = "(10::int) ^ rate_scale"
  have d: "0 < ?d" by simp
  have is_rounding: "rounds_half_even (trade_amount * fee_rate) ?d
      (computeFeeAmount trade_amount fee_rate)"
    using rhe_near [OF d] rhe_tie [OF d]
    by (simp add: rounds_half_even_def computeFeeAmount_def multiplyByRate_def)
  have only: "\<forall>q. rounds_half_even (trade_amount * fee_rate) ?d q
      \<longrightarrow> q = computeFeeAmount trade_amount fee_rate"
    using rhe_unique [OF d]
    by (simp add: rounds_half_even_def computeFeeAmount_def multiplyByRate_def)
  have bounded: "computeFeeAmount trade_amount fee_rate \<le> trade_amount"
    if "0 \<le> trade_amount" and "fee_rate \<le> ?d"
  proof -
    from that have "trade_amount * fee_rate \<le> trade_amount * ?d"
      by (rule mult_left_mono [OF _ _, rotated])
    then show ?thesis
      using rhe_le [OF d, of "trade_amount * fee_rate" trade_amount]
      by (simp add: computeFeeAmount_def multiplyByRate_def)
  qed
  from is_rounding only bounded show ?thesis
    by blast
qed

theorem C2_fee_rounded_half_even_and_bounded_witness:
  "(0::int) \<le> 10000000000 \<and> (10::int) \<le> 10 ^ rate_scale
   \<and> rounds_half_even (10000000000 * 10) (10 ^ rate_scale) (computeFeeAmount 10000000000 10)
   \<and> computeFeeAmount 10000000000 10 = 10000000
   \<and> computeFeeAmount 10000000000 10 \<le> 10000000000
   \<and> rounds_half_even (10000000 * 20000) (10 ^ rate_scale) (computeFeeAmount 10000000 20000)
   \<and> rounds_half_even 15000 (10 ^ rate_scale) 2
   \<and> computeFeeAmount 15 1000 = 2"
proof -
  have h1: "(0::int) \<le> 10000000000" by simp
  have h2: "(10::int) \<le> 10 ^ rate_scale" by (simp add: rate_scale_def)
  have tie: "rounds_half_even 15000 (10 ^ rate_scale) 2"
    by (simp add: rounds_half_even_def rate_scale_def)
  from C2_fee_rounded_half_even_and_bounded [of 10000000000 10] h1 h2
  have a: "rounds_half_even (10000000000 * 10) (10 ^ rate_scale)
      (computeFeeAmount 10000000000 10)"
    and b: "computeFeeAmount 10000000000 10 \<le> 10000000000"
    by blast+
  from C2_fee_rounded_half_even_and_bounded [of 10000000 20000]
  have c: "rounds_half_even (10000000 * 20000) (10 ^ rate_scale)
      (computeFeeAmount 10000000 20000)"
    by blast
  from C2_fee_rounded_half_even_and_bounded [of 15 1000] tie
  have e: "computeFeeAmount 15 1000 = 2"
    by simp
  show ?thesis
    by (intro conjI) (rule h1 h2 a b c tie e computeFeeAmount_examples(1))+
qed

section \<open>Properties of the refund request\<close>

text \<open>
  C3. \<open>requestRefund\<close> is idempotent. On a COLLECTED transaction the first call
  succeeds with a REFUNDED record, and a second call, at whatever time, succeeds with
  that same record and leaves the store as the first call left it. On a transaction
  that is already REFUNDED the call is not an error: it returns the record and the
  store as they are.
\<close>

theorem C3_requestRefund_idempotent:
  assumes "st ident = Some t"
  shows "(status t = COLLECTED \<longrightarrow>
            (\<exists>t' st'. requestRefund time1 st ident = Inr (t', st')
               \<and> status t' = REFUNDED
               \<and> requestRefund time2 st' ident = Inr (t', st')))
       \<and> (status t = REFUNDED \<longrightarrow> requestRefund time1 st ident = Inr (t, st))"
proof (intro conjI impI)
  assume c: "status t = COLLECTED"
  let ?t' = "t \<lparr> status := REFUNDED, updatedAt := time1 \<rparr>"
  let ?st' = "st(ident \<mapsto> ?t')"
  from assms c have first: "requestRefund time1 st ident = Inr (?t', ?st')"
    by (simp add: requestRefund_def Let_def)
  have second: "requestRefund time2 ?st' ident = Inr (?t', ?st')"
    by (simp add: requestRefund_def Let_def)
  from first second
  show "\<exists>t' st'. requestRefund time1 st ident = Inr (t', st')
          \<and> status t' = REFUNDED \<and> requestRefund time2 st' ident = Inr (t', st')"
    by simp
next
  assume "status t = REFUNDED"
  with assms show "requestRefund time1 st ident = Inr (t, st)"
    by (simp add: requestRefund_def Let_def)
qed

theorem C3_requestRefund_idempotent_witness:
  "[''tx1'' \<mapsto> (new_FeeTransaction 1 1 1) \<lparr> status := COLLECTED \<rparr>] ''tx1''
     = Some ((new_FeeTransaction 1 1 1) \<lparr> status := COLLECTED \<rparr>)
   \<and> status ((new_FeeTransaction 1 1 1) \<lparr> status := COLLECTED \<rparr>) = COLLECTED
   \<and> requestRefund 5
        [''tx1'' \<mapsto> (new_FeeTransaction 1 1 1) \<lparr> status := COLLECTED \<rparr>] ''tx1''
     = Inr ((new_FeeTransaction 1 5 1) \<lparr> status := REFUNDED \<rparr>,
            [''tx1'' \<mapsto> (new_FeeTransaction 1 5 1) \<lparr> status := REFUNDED \<rparr>])
   \<and> requestRefund 9
        [''tx1'' \<mapsto> (new_FeeTransaction 1 5 1) \<lparr> status := REFUNDED \<rparr>] ''tx1''
     = Inr ((new_FeeTransaction 1 5 1) \<lparr> status := REFUNDED \<rparr>,
            [''tx1'' \<mapsto> (new_FeeTransaction 1 5 1) \<lparr> status := REFUNDED \<rparr>])
   \<and> status ((new_FeeTransaction 1 5 1) \<lparr> status := REFUNDED \<rparr>) = REFUNDED
   \<and> requestRefund 12
        [''tx1'' \<mapsto> (new_FeeTransaction 1 5 1) \<lparr> status := REFUNDED \<rparr>] ''tx1''
     = Inr ((new_FeeTransaction 1 5 1) \<lparr> status := REFUNDED \<rparr>,
            [''tx1'' \<mapsto> (new_FeeTransaction 1 5 1) \<lparr> status := REFUNDED \<rparr>])"
proof -
  let ?t0 = "(new_FeeTransaction 1 1 1) \<lparr> status := COLLECTED \<rparr>"
  let ?t1 = "(new_FeeTransaction 1 5 1) \<lparr> status := REFUNDED \<rparr>"
  have stored: "[''tx1'' \<mapsto> ?t0] ''tx1'' = Some ?t0"
    by simp
  have collected: "status ?t0 = COLLECTED"
    by simp
  have first: "requestRefund 5 [''tx1'' \<mapsto> ?t0] ''tx1'' = Inr (?t1, [''tx1'' \<mapsto> ?t1])"
    by (simp add: requestRefund_def Let_def new_FeeTransaction_def)
  from C3_requestRefund_idempotent [of "[''tx1'' \<mapsto> ?t0]" "''tx1''" ?t0 5 9, OF stored]
    collected
  obtain t' st' where
    "requestRefund 5 [''tx1'' \<mapsto> ?t0] ''tx1'' = Inr (t', st')"
    "requestRefund 9 st' ''tx1'' = Inr (t', st')"
    by blast
  with first have second:
    "requestRefund 9 [''tx1'' \<mapsto> ?t1] ''tx1'' = Inr (?t1, [''tx1'' \<mapsto> ?t1])"
    by simp
  have stored1: "[''tx1'' \<mapsto> ?t1] ''tx1'' = Some ?t1"
    by simp
  have refunded: "status ?t1 = REFUNDED"
    by simp
  from C3_requestRefund_idempotent [of "[''tx1'' \<mapsto> ?t1]" "''tx1''" ?t1 12 0, OF stored1]
    refunded
  have again: "requestRefund 12 [''tx1'' \<mapsto> ?t1] ''tx1'' = Inr (?t1, [''tx1'' \<mapsto> ?t1])"
    by blast
  from stored collected first second refunded again show ?thesis
    by blast
qed

end
